theory Spec2Isabelle
  imports Main
begin

section \<open>Python values and exceptions\<close>

text \<open>
  The two notebooks of the repository call the LightBox geocoding API. The batch notebook
  (\<^verbatim>\<open>SampleScripts/BatchGeocodeSearch/batch_search.ipynb\<close>) formats address rows, sends one request
  per address and collects one result row per address. Every exception the Python code can raise
  is a value of \<open>exn\<close>; a computation that may raise returns \<open>exn + 'a\<close>, with \<open>Inl\<close> the
  exception.
\<close>

datatype exn =
    KeyError
  | TypeError
  | IndexError
  | ValueError
  | AttributeError
  | JSONDecodeError
  | FileNotFoundError
  | RequestException

text \<open>
  A decoded JSON document, as \<^verbatim>\<open>response.json()\<close> returns it: \<^verbatim>\<open>None\<close>, \<^verbatim>\<open>bool\<close>, \<^verbatim>\<open>int\<close>,
  \<^verbatim>\<open>float\<close>, \<^verbatim>\<open>str\<close>, \<^verbatim>\<open>list\<close> and \<^verbatim>\<open>dict\<close>. \<open>JFloat m e\<close> is the finite double
  \<open>m * 2 ^ e\<close>, \<open>JNaN\<close> and \<open>JInf\<close> are the values \<^verbatim>\<open>json.loads\<close> reads from the literals
  \<^verbatim>\<open>NaN\<close>, \<^verbatim>\<open>Infinity\<close> and \<^verbatim>\<open>-Infinity\<close> (\<open>JInf True\<close> the negative one); the code never
  computes with a number, it only copies it or tests it for truth.
  A \<^verbatim>\<open>dict\<close> is an association list in insertion order; a decoded object has no duplicate key,
  and a lookup takes the first binding.
\<close>

datatype json =
    JNull
  | JBool bool
  | JInt int
  | JFloat int int
  | JNaN
  | JInf bool
  | JStr string
  | JArr "json list"
  | JObj "(string \<times> json) list"

text \<open>Truth value testing, \<^verbatim>\<open>if v:\<close>.\<close>

fun truthy :: "json \<Rightarrow> bool" where
  "truthy JNull = False"
| "truthy (JBool b) = b"
| "truthy (JInt n) = (n \<noteq> 0)"
| "truthy (JFloat m e) = (m \<noteq> 0)"
| "truthy JNaN = True"
| "truthy (JInf negative) = True"
| "truthy (JStr s) = (s \<noteq> [])"
| "truthy (JArr xs) = (xs \<noteq> [])"
| "truthy (JObj kvs) = (kvs \<noteq> [])"

text \<open>
  Subscription with a string key, \<^verbatim>\<open>v['key']\<close>: a \<^verbatim>\<open>dict\<close> raises \<^verbatim>\<open>KeyError\<close> on a missing
  key, every other value raises \<^verbatim>\<open>TypeError\<close>.
\<close>

fun getitem_str :: "json \<Rightarrow> string \<Rightarrow> exn + json" where
  "getitem_str (JObj kvs) k = (case map_of kvs k of None \<Rightarrow> Inl KeyError | Some v \<Rightarrow> Inr v)"
| "getitem_str v k = Inl TypeError"

text \<open>
  Subscription with an integer, \<^verbatim>\<open>v[i]\<close>: negative indices count from the end; a \<^verbatim>\<open>list\<close> or
  \<^verbatim>\<open>str\<close> raises \<^verbatim>\<open>IndexError\<close> out of range; a decoded \<^verbatim>\<open>dict\<close> has string keys only, so an
  integer key raises \<^verbatim>\<open>KeyError\<close>; every other value raises \<^verbatim>\<open>TypeError\<close>.
\<close>

definition index_seq :: "'a list \<Rightarrow> int \<Rightarrow> exn + 'a" where
  "index_seq xs i =
     (if 0 \<le> i \<and> i < int (length xs) then Inr (xs ! nat i)
      else if i < 0 \<and> - int (length xs) \<le> i then Inr (xs ! nat (int (length xs) + i))
      else Inl IndexError)"

fun getitem_int :: "json \<Rightarrow> int \<Rightarrow> exn + json" where
  "getitem_int (JArr xs) i = index_seq xs i"
| "getitem_int (JStr s) i = (case index_seq s i of Inl e \<Rightarrow> Inl e | Inr c \<Rightarrow> Inr (JStr [c]))"
| "getitem_int (JObj kvs) i = Inl KeyError"
| "getitem_int v i = Inl TypeError"

text \<open>Sequencing of computations that may raise: the first exception wins.\<close>

definition bind_exn :: "exn + 'a \<Rightarrow> ('a \<Rightarrow> exn + 'b) \<Rightarrow> exn + 'b" where
  "bind_exn m f = (case m of Inl e \<Rightarrow> Inl e | Inr x \<Rightarrow> f x)"

text \<open>\<^verbatim>\<open>str(n)\<close> of an \<^verbatim>\<open>int\<close>, as an f-string renders it: decimal, with a minus sign.\<close>

definition digit_char :: "nat \<Rightarrow> char" where
  "digit_char d = ''0123456789'' ! d"

fun str_nat :: "nat \<Rightarrow> string" where
  "str_nat n = (if n < 10 then [digit_char n] else str_nat (n div 10) @ [digit_char (n mod 10)])"

declare str_nat.simps [simp del]

definition str_int :: "int \<Rightarrow> string" where
  "str_int i = (if i < 0 then CHR ''-'' # str_nat (nat (- i)) else str_nat (nat i))"

text \<open>
  \<^verbatim>\<open>range(start, stop, step)\<close> as a list: a zero step raises \<^verbatim>\<open>ValueError\<close>; the length is the
  one CPython computes.
\<close>

definition range_len :: "int \<Rightarrow> int \<Rightarrow> int \<Rightarrow> nat" where
  "range_len lo hi step =
     (if 0 < step \<and> lo < hi then nat ((hi - lo - 1) div step + 1)
      else if step < 0 \<and> hi < lo then nat ((lo - hi - 1) div (- step) + 1)
      else 0)"

definition py_range :: "int \<Rightarrow> int \<Rightarrow> int \<Rightarrow> exn + int list" where
  "py_range lo hi step =
     (if step = 0 then Inl ValueError
      else Inr (map (\<lambda>k. lo + int k * step) [0..<range_len lo hi step]))"

text \<open>
  The slice \<^verbatim>\<open>xs[lo:hi]\<close>: a negative bound counts from the end, and both bounds are clamped
  to the list.
\<close>

definition slice_index :: "nat \<Rightarrow> int \<Rightarrow> nat" where
  "slice_index n i = (if i < 0 then nat (max (i + int n) 0) else min (nat i) n)"

definition py_slice :: "'a list \<Rightarrow> int \<Rightarrow> int \<Rightarrow> 'a list" where
  "py_slice xs lo hi =
     (let a = slice_index (length xs) lo; b = slice_index (length xs) hi
      in take (b - a) (drop a xs))"

section \<open>The remote service and the world\<close>

text \<open>
  A request as \<^verbatim>\<open>requests.get(URL, params=params, headers=headers)\<close> sends it, and the response
  object it returns: the status code, and the decoded body (\<open>None\<close> when the body is not JSON,
  so that \<^verbatim>\<open>.json()\<close> raises).
\<close>

datatype http_method = GET | POST

record request =
  http_method :: http_method
  url :: string
  params :: "(string \<times> string) list"
  headers :: "(string \<times> string) list"

record response =
  status_code :: int
  body :: "json option"

definition response_json :: "response \<Rightarrow> exn + json" where
  "response_json r = (case body r of None \<Rightarrow> Inl JSONDecodeError | Some j \<Rightarrow> Inr j)"

text \<open>
  The remote service is a fixed mapping from a request to its outcome: a transport failure
  (an exception of \<^verbatim>\<open>requests\<close>) or a response.
\<close>

type_synonym remote = "request \<Rightarrow> exn + response"

text \<open>
  A written CSV file is kept as its header record and its data records, the cells not yet
  rendered as text. A data frame has column labels and rows; a row of the result frame has the
  five cells of one dictionary the batch driver appends, as the frame stores them.
\<close>

record row =
  address :: string
  latitude :: json
  longitude :: json
  confidence_score :: json
  precision_code :: json

record dataframe =
  columns :: "string list"
  frame_rows :: "row list"

record csv_file =
  header :: "string list"
  records :: "json list list"

text \<open>
  The effects of the code: the requests sent so far, the lines printed so far, and the files
  written so far.
\<close>

record world =
  net_log :: "request list"
  stdout :: "string list"
  files :: "string \<rightharpoonup> csv_file"

definition py_print :: "string \<Rightarrow> world \<Rightarrow> world" where
  "py_print line w = w\<lparr>stdout := stdout w @ [line]\<rparr>"

section \<open>The geocode clients\<close>

definition BASE_URL :: string where
  "BASE_URL = ''https://api.lightboxre.com/v1''"

text \<open>\<^verbatim>\<open>geocode_address\<close> of the batch notebook: the search endpoint.\<close>

definition geocode_address :: "remote \<Rightarrow> string \<Rightarrow> string \<Rightarrow> world \<Rightarrow> (exn + response) \<times> world" where
  "geocode_address remote lightbox_api_key addr w =
     (let ENDPOINT = ''/addresses/search'';
          URL = BASE_URL @ ENDPOINT;
          params = [(''text'', addr)];
          headers = [(''x-api-key'', lightbox_api_key)];
          req = \<lparr>http_method = GET, url = URL, params = params, headers = headers\<rparr>
      in (remote req, w\<lparr>net_log := net_log w @ [req]\<rparr>))"

text \<open>\<^verbatim>\<open>autocomplete_address\<close> of the autocomplete notebook.\<close>

definition autocomplete_address ::
  "remote \<Rightarrow> string \<Rightarrow> string \<Rightarrow> string \<Rightarrow> world \<Rightarrow> (exn + response) \<times> world" where
  "autocomplete_address remote lightbox_api_key addr country_code w =
     (let ENDPOINT = ''/addresses/_autocomplete'';
          URL = BASE_URL @ ENDPOINT;
          params = [(''text'', addr), (''countryCode'', country_code)];
          headers = [(''x-api-key'', lightbox_api_key)];
          req = \<lparr>http_method = GET, url = URL, params = params, headers = headers\<rparr>
      in (remote req, w\<lparr>net_log := net_log w @ [req]\<rparr>))"

section \<open>The pandas library\<close>

text \<open>
  A cell of the frame \<^verbatim>\<open>pd.read_csv\<close> returns, as the lambda of the formatter receives it: a
  \<^verbatim>\<open>str\<close>, an integer, a float, a \<^verbatim>\<open>bool\<close>, or the missing value \<^verbatim>\<open>nan\<close>. A float cell is
  given by the text Python prints for it (the shortest decimal that reads back as the same
  double), since the code does nothing with a cell but print it.
\<close>

datatype cell = CStr string | CInt int | CFloat string | CBool bool | CNaN

record table =
  tcolumns :: "string list"
  trows :: "cell list list"

text \<open>
  An input file, as the tokeniser of \<^verbatim>\<open>pd.read_csv\<close> splits it: the fields of the header line
  and the fields of every data record (quoting and blank lines are the tokeniser's matter).
\<close>

record csv_text =
  header_fields :: "string list"
  data_fields :: "string list list"

text \<open>
  pandas is not part of the repository. What the model fixes of it is stated in the definitions
  below; the rest of its behaviour is a parameter:
  \<^item> \<open>infer_cell col field\<close>: the cell \<^verbatim>\<open>pd.read_csv\<close> makes of a field of the column \<open>col\<close>,
    when the column is not one of integer literals (missing-value markers, floats, booleans
    and text are told apart here);
  \<^item> \<open>read_irregular\<close>: the outcome of \<^verbatim>\<open>pd.read_csv\<close> on a file whose header is empty, has an
    empty or repeated label, or whose records do not have one field per label;
  \<^item> \<open>upcast_cell rows c\<close>: the cell \<^verbatim>\<open>df.apply(..., axis=1)\<close> hands over for \<open>c\<close> when no cell
    of the frame is a \<^verbatim>\<open>str\<close>, so that the rows have a common numeric type;
  \<^item> \<open>convert_cell col v\<close>: the cell \<^verbatim>\<open>pd.DataFrame\<close> stores for the value \<open>v\<close> of the column
    \<open>col\<close>, when \<open>v\<close> is not a \<^verbatim>\<open>str\<close> (an \<^verbatim>\<open>int\<close> beside a \<^verbatim>\<open>float\<close> becomes a \<^verbatim>\<open>float\<close>,
    \<^verbatim>\<open>None\<close> beside a number becomes \<^verbatim>\<open>nan\<close>).
\<close>

record pandas =
  infer_cell :: "string list \<Rightarrow> string \<Rightarrow> cell"
  read_irregular :: "csv_text \<Rightarrow> exn + table"
  upcast_cell :: "cell list list \<Rightarrow> cell \<Rightarrow> cell"
  convert_cell :: "json list \<Rightarrow> json \<Rightarrow> json"

section \<open>The address formatter\<close>
















section \<open>The batch driver\<close>

text \<open>A chain of subscriptions \<^verbatim>\<open>v[k1][k2]...\<close>, evaluated left to right.\<close>

fun getpath :: "json \<Rightarrow> string list \<Rightarrow> exn + json" where
  "getpath v [] = Inr v"
| "getpath v (k # ks) = bind_exn (getitem_str v k) (\<lambda>v'. getpath v' ks)"

text \<open>
  The branch of a truthy \<^verbatim>\<open>data['addresses']\<close>: the first match, its four fields in the order
  the code reads them, and the dictionary appended.
\<close>

definition matched_row :: "string \<Rightarrow> json \<Rightarrow> exn + row" where
  "matched_row addr data =
     bind_exn (bind_exn (getitem_str data ''addresses'') (\<lambda>a. getitem_int a 0)) (\<lambda>first_match.
     bind_exn (getpath first_match [''location'', ''representativePoint'', ''latitude'']) (\<lambda>lat.
     bind_exn (getpath first_match [''location'', ''representativePoint'', ''longitude'']) (\<lambda>lon.
     bind_exn (getpath first_match [''$metadata'', ''geocode'', ''confidence'', ''score'']) (\<lambda>score.
     bind_exn (getpath first_match [''$metadata'', ''geocode'', ''precisionCode'']) (\<lambda>prec.
     Inr \<lparr>address = addr, latitude = lat, longitude = lon,
          confidence_score = score, precision_code = prec\<rparr>)))))"

text \<open>The branch \<^verbatim>\<open>result.status_code == 200\<close>: the row appended, or the exception raised.\<close>

definition on_status_200 :: "string \<Rightarrow> response \<Rightarrow> exn + row" where
  "on_status_200 addr result =
     bind_exn (response_json result) (\<lambda>data.
     bind_exn (getitem_str data ''addresses'') (\<lambda>a.
       if truthy a then matched_row addr data
       else Inr \<lparr>address = addr, latitude = JStr ''No match'', longitude = JStr ''No match'',
                 confidence_score = JStr ''No match'', precision_code = JStr ''No match''\<rparr>))"

text \<open>
  The body of the inner loop, for one address: the request, the interpretation of the response,
  the append to \<^verbatim>\<open>all_results\<close> and, on a status other than 200, the printed line. An exception
  leaves the effects done so far in the world and carries no rows.
\<close>

definition geocode_step ::
  "remote \<Rightarrow> string \<Rightarrow> string \<Rightarrow> row list \<Rightarrow> world \<Rightarrow> (exn + row list) \<times> world" where
  "geocode_step remote api_key addr all_results w =
     (case geocode_address remote api_key addr w of
        (Inl e, w1) \<Rightarrow> (Inl e, w1)
      | (Inr result, w1) \<Rightarrow>
          if status_code result = 200 then
            (case on_status_200 addr result of
               Inl e \<Rightarrow> (Inl e, w1)
             | Inr r \<Rightarrow> (Inr (all_results @ [r]), w1))
          else
            (Inr (all_results @
               [\<lparr>address = addr,
                 latitude = JStr ''Failed'',
                 longitude = JStr (''Status Code: '' @ str_int (status_code result)),
                 confidence_score = JStr ''Failed'',
                 precision_code = JStr ''Failed''\<rparr>]),
             py_print (''Failed to geocode address '' @ [CHR 0x27] @ addr @ [CHR 0x27] @
                       '', Status Code: '' @ str_int (status_code result)) w1))"

text \<open>\<^verbatim>\<open>for address in batch\<close>.\<close>

fun for_address ::
  "remote \<Rightarrow> string \<Rightarrow> string list \<Rightarrow> row list \<Rightarrow> world \<Rightarrow> (exn + row list) \<times> world" where
  "for_address remote api_key [] all_results w = (Inr all_results, w)"
| "for_address remote api_key (a # batch) all_results w =
     (case geocode_step remote api_key a all_results w of
        (Inl e, w1) \<Rightarrow> (Inl e, w1)
      | (Inr all_results1, w1) \<Rightarrow> for_address remote api_key batch all_results1 w1)"

text \<open>\<^verbatim>\<open>for batch in batched_addresses\<close>.\<close>

fun for_batch ::
  "remote \<Rightarrow> string \<Rightarrow> string list list \<Rightarrow> row list \<Rightarrow> world \<Rightarrow> (exn + row list) \<times> world" where
  "for_batch remote api_key [] all_results w = (Inr all_results, w)"
| "for_batch remote api_key (batch # batches) all_results w =
     (case for_address remote api_key batch all_results w of
        (Inl e, w1) \<Rightarrow> (Inl e, w1)
      | (Inr all_results1, w1) \<Rightarrow> for_batch remote api_key batches all_results1 w1)"

text \<open>The list comprehension that cuts the addresses into batches.\<close>

definition batched_addresses :: "string list \<Rightarrow> int \<Rightarrow> exn + string list list" where
  "batched_addresses addresses batch_size =
     bind_exn (py_range 0 (int (length addresses)) batch_size) (\<lambda>starts.
       Inr (map (\<lambda>i. py_slice addresses i (i + batch_size)) starts))"

text \<open>
  \<^verbatim>\<open>pd.DataFrame(all_results)\<close> of a list of dictionaries: the columns are the keys in order of
  first appearance. Every dictionary the driver appends has the same five keys in the same
  order, and an empty list gives a frame without columns. There is one row per dictionary, in
  order. A \<^verbatim>\<open>str\<close> is stored as it is; any other value is stored as pandas converts it within
  its column.
\<close>

definition stored :: "pandas \<Rightarrow> json list \<Rightarrow> json \<Rightarrow> json" where
  "stored pd col v = (case v of JStr s \<Rightarrow> JStr s | _ \<Rightarrow> convert_cell pd col v)"

definition DataFrame :: "pandas \<Rightarrow> row list \<Rightarrow> dataframe" where
  "DataFrame pd all_results =
     \<lparr>columns = (if all_results = [] then []
                 else [''address'', ''latitude'', ''longitude'', ''confidence_score'',
                       ''precision_code'']),
      frame_rows =
        map (\<lambda>r. \<lparr>address = address r,
                  latitude = stored pd (map latitude all_results) (latitude r),
                  longitude = stored pd (map longitude all_results) (longitude r),
                  confidence_score = stored pd (map confidence_score all_results) (confidence_score r),
                  precision_code = stored pd (map precision_code all_results) (precision_code r)\<rparr>)
          all_results\<rparr>"

definition batch_geocode_addresses ::
  "pandas \<Rightarrow> remote \<Rightarrow> string \<Rightarrow> string list \<Rightarrow> int \<Rightarrow> world \<Rightarrow>
     (exn + dataframe) \<times> world" where
  "batch_geocode_addresses pd remote api_key addresses batch_size w =
     (case batched_addresses addresses batch_size of
        Inl e \<Rightarrow> (Inl e, w)
      | Inr batches \<Rightarrow>
          (case for_batch remote api_key batches [] w of
             (Inl e, w1) \<Rightarrow> (Inl e, w1)
           | (Inr all_results, w1) \<Rightarrow> (Inr (DataFrame pd all_results), w1)))"

section \<open>The result sink and the script\<close>

text \<open>\<^verbatim>\<open>df.to_csv(path, index=False)\<close>: the column labels as header, one record per row.\<close>

definition row_cells :: "row \<Rightarrow> json list" where
  "row_cells r = [JStr (address r), latitude r, longitude r, confidence_score r, precision_code r]"

definition to_csv :: "dataframe \<Rightarrow> string \<Rightarrow> world \<Rightarrow> world" where
  "to_csv df path w =
     w\<lparr>files := (files w)(path \<mapsto> \<lparr>header = columns df, records = map row_cells (frame_rows df)\<rparr>)\<rparr>"

text \<open>
  Cells 5 and 6 of the batch notebook: the call with the default batch size of 200, then the
  write of the file. An exception in the call ends the run before the file is written.
\<close>

definition geocode_and_save ::
  "pandas \<Rightarrow> remote \<Rightarrow> string \<Rightarrow> string list \<Rightarrow> string \<Rightarrow> world \<Rightarrow>
     (exn + unit) \<times> world" where
  "geocode_and_save pd remote lightbox_api_key addresses output_file_path w =
     (case batch_geocode_addresses pd remote lightbox_api_key addresses 200
             (py_print ''Starting batch geocoding...'' w) of
        (Inl e, w1) \<Rightarrow> (Inl e, w1)
      | (Inr geocoded_data, w1) \<Rightarrow>
          (Inr (),
           py_print (''Geocoded data saved to '' @ [CHR 0x27] @ output_file_path @ [CHR 0x27] @ ''.'')
             (to_csv geocoded_data output_file_path
               (py_print ''Batch geocoding completed.'' w1))))"

section \<open>Notions of the specification\<close>

text \<open>The one request each client sends.\<close>

definition search_request :: "string \<Rightarrow> string \<Rightarrow> request" where
  "search_request api_key addr =
     \<lparr>http_method = GET, url = ''https://api.lightboxre.com/v1/addresses/search'',
      params = [(''text'', addr)], headers = [(''x-api-key'', api_key)]\<rparr>"

definition autocomplete_request :: "string \<Rightarrow> string \<Rightarrow> string \<Rightarrow> request" where
  "autocomplete_request api_key addr country_code =
     \<lparr>http_method = GET, url = ''https://api.lightboxre.com/v1/addresses/_autocomplete'',
      params = [(''text'', addr), (''countryCode'', country_code)],
      headers = [(''x-api-key'', api_key)]\<rparr>"

text \<open>
  The renderings of a result row without a match, and the line printed for a failed request.
  The row of a failed request has the status code text in its longitude field.
\<close>

definition status_text :: "int \<Rightarrow> string" where
  "status_text code = ''Status Code: '' @ str_int code"

definition failed_row :: "string \<Rightarrow> int \<Rightarrow> row" where
  "failed_row addr code =
     \<lparr>address = addr, latitude = JStr ''Failed'', longitude = JStr (status_text code),
      confidence_score = JStr ''Failed'', precision_code = JStr ''Failed''\<rparr>"

definition failed_line :: "string \<Rightarrow> int \<Rightarrow> string" where
  "failed_line addr code =
     ''Failed to geocode address '' @ [CHR 0x27] @ addr @ [CHR 0x27] @ '', '' @ status_text code"

definition no_match_row :: "string \<Rightarrow> row" where
  "no_match_row addr =
     \<lparr>address = addr, latitude = JStr ''No match'', longitude = JStr ''No match'',
      confidence_score = JStr ''No match'', precision_code = JStr ''No match''\<rparr>"

text \<open>
  A well-formed response, after the description of the remote API: a status other than 200, or
  a JSON object with an \<open>addresses\<close> array whose elements each have
  \<open>location.representativePoint.{latitude, longitude}\<close> and
  \<open>$metadata.geocode.{confidence.score, precisionCode}\<close>.
\<close>

definition has_path :: "json \<Rightarrow> string list \<Rightarrow> bool" where
  "has_path v ks = (case getpath v ks of Inl e \<Rightarrow> False | Inr x \<Rightarrow> True)"

definition well_formed_match :: "json \<Rightarrow> bool" where
  "well_formed_match m \<longleftrightarrow>
     has_path m [''location'', ''representativePoint'', ''latitude''] \<and>
     has_path m [''location'', ''representativePoint'', ''longitude''] \<and>
     has_path m [''$metadata'', ''geocode'', ''confidence'', ''score''] \<and>
     has_path m [''$metadata'', ''geocode'', ''precisionCode'']"

definition well_formed_body :: "json \<Rightarrow> bool" where
  "well_formed_body d =
     (case getitem_str d ''addresses'' of
        Inr (JArr ms) \<Rightarrow> list_all well_formed_match ms
      | _ \<Rightarrow> False)"

definition well_formed_response :: "response \<Rightarrow> bool" where
  "well_formed_response r =
     (if status_code r = 200 then (case body r of None \<Rightarrow> False | Some d \<Rightarrow> well_formed_body d)
      else True)"

text \<open>
  A body that lacks an expected field: no \<open>addresses\<close> entry can be read from it, or the first
  element of a non-empty \<open>addresses\<close> array lacks one of the four fields.
\<close>

definition lacks_expected_field :: "json \<Rightarrow> bool" where
  "lacks_expected_field d =
     (case getitem_str d ''addresses'' of
        Inl e \<Rightarrow> True
      | Inr (JArr (m # ms)) \<Rightarrow> \<not> well_formed_match m
      | Inr _ \<Rightarrow> False)"

text \<open>
  The unbatched iteration the batch driver is compared with: one address at a time over the
  whole list, nothing more done once an exception is raised.
\<close>

definition one_at_a_time ::
  "remote \<Rightarrow> string \<Rightarrow> (exn + row list) \<times> world \<Rightarrow> string \<Rightarrow> (exn + row list) \<times> world" where
  "one_at_a_time remote api_key acc a =
     (case acc of
        (Inl e, w) \<Rightarrow> (Inl e, w)
      | (Inr all_results, w) \<Rightarrow> geocode_step remote api_key a all_results w)"

definition unbatched_geocode_addresses ::
  "pandas \<Rightarrow> remote \<Rightarrow> string \<Rightarrow> string list \<Rightarrow> world \<Rightarrow> (exn + dataframe) \<times> world" where
  "unbatched_geocode_addresses pd remote api_key addresses w =
     (case foldl (one_at_a_time remote api_key) (Inr [], w) addresses of
        (Inl e, w1) \<Rightarrow> (Inl e, w1)
      | (Inr all_results, w1) \<Rightarrow> (Inr (DataFrame pd all_results), w1))"


text \<open>
  What one address contributes, read off the remote mapping alone: its row (or the exception
  that ends the run) and the lines it prints.
\<close>

definition row_of :: "remote \<Rightarrow> string \<Rightarrow> string \<Rightarrow> exn + row" where
  "row_of remote api_key addr =
     bind_exn (remote (search_request api_key addr)) (\<lambda>result.
       if status_code result = 200 then on_status_200 addr result
       else Inr (failed_row addr (status_code result)))"

definition lines_of :: "remote \<Rightarrow> string \<Rightarrow> string \<Rightarrow> string list" where
  "lines_of remote api_key addr =
     (case remote (search_request api_key addr) of
        Inl e \<Rightarrow> []
      | Inr result \<Rightarrow>
          if status_code result = 200 then [] else [failed_line addr (status_code result)])"

section \<open>A small remote service for the concrete checks\<close>

text \<open>
  Address \<open>A\<close> has two candidates, \<open>B\<close> has none, \<open>C\<close> is answered with status 404, \<open>D\<close>
  with a body that has no \<open>addresses\<close> entry; a request for any other address fails in
  transport.
\<close>

definition candidate_1 :: json where
  "candidate_1 =
     JObj [(''label'', JStr ''5201 C ST''),
           (''location'', JObj [(''representativePoint'',
              JObj [(''longitude'', JFloat (-75) 0), (''latitude'', JFloat 40 0)])]),
           (''$metadata'', JObj [(''geocode'',
              JObj [(''confidence'', JObj [(''score'', JInt 97)]),
                    (''precisionCode'', JStr ''P1'')])])]"

definition candidate_2 :: json where
  "candidate_2 =
     JObj [(''label'', JStr ''5203 C ST''),
           (''location'', JObj [(''representativePoint'',
              JObj [(''longitude'', JFloat (-76) 0), (''latitude'', JFloat 41 0)])]),
           (''$metadata'', JObj [(''geocode'',
              JObj [(''confidence'', JObj [(''score'', JInt 55)]),
                    (''precisionCode'', JStr ''P2'')])])]"

definition example_remote :: remote where
  "example_remote req =
     (if params req = [(''text'', ''A'')] then
        Inr \<lparr>status_code = 200,
             body = Some (JObj [(''addresses'', JArr [candidate_1, candidate_2])])\<rparr>
      else if params req = [(''text'', ''B'')] then
        Inr \<lparr>status_code = 200, body = Some (JObj [(''addresses'', JArr [])])\<rparr>
      else if params req = [(''text'', ''C'')] then
        Inr \<lparr>status_code = 404, body = None\<rparr>
      else if params req = [(''text'', ''D'')] then
        Inr \<lparr>status_code = 200, body = Some (JObj [(''error'', JStr ''unexpected'')])\<rparr>
      else Inl RequestException)"

definition example_world :: world where
  "example_world = \<lparr>net_log = [], stdout = [], files = Map.empty\<rparr>"

text \<open>
  An instance of the pandas parameters that behaves as pandas does on the examples: a field is
  text unless it is empty, a ragged file is refused, and in a column without a \<^verbatim>\<open>str\<close> an
  \<^verbatim>\<open>int\<close> beside a \<^verbatim>\<open>float\<close> becomes a \<^verbatim>\<open>float\<close> and \<^verbatim>\<open>None\<close> beside a number becomes
  \<^verbatim>\<open>nan\<close>.
\<close>

definition is_str :: "json \<Rightarrow> bool" where
  "is_str v = (case v of JStr s \<Rightarrow> True | _ \<Rightarrow> False)"

definition is_float :: "json \<Rightarrow> bool" where
  "is_float v = (case v of JFloat m e \<Rightarrow> True | JNaN \<Rightarrow> True | JInf n \<Rightarrow> True | _ \<Rightarrow> False)"

definition is_number :: "json \<Rightarrow> bool" where
  "is_number v = (case v of JInt n \<Rightarrow> True | _ \<Rightarrow> is_float v)"

definition example_convert_cell :: "json list \<Rightarrow> json \<Rightarrow> json" where
  "example_convert_cell col v =
     (if list_ex is_str col then v
      else case v of
        JInt n \<Rightarrow> if list_ex is_float col \<or> list_ex (\<lambda>x. x = JNull) col then JFloat n 0 else v
      | JNull \<Rightarrow> if list_ex is_number col then JNaN else v
      | _ \<Rightarrow> v)"

definition example_pandas :: pandas where
  "example_pandas =
     \<lparr>infer_cell = (\<lambda>col field. if field = [] then CNaN else CStr field),
      read_irregular = (\<lambda>t. Inl ValueError),
      upcast_cell = (\<lambda>rows c. c),
      convert_cell = example_convert_cell\<rparr>"


section \<open>Batching is a partition of the list\<close>

lemma slice_index_nonneg: "0 \<le> i \<Longrightarrow> slice_index n i = min (nat i) n"
  by (simp add: slice_index_def)

lemma py_slice_chunk:
  assumes "0 < b"
  shows "py_slice xs (int k * int b) (int k * int b + int b) = take b (drop (k * b) xs)"
proof -
  have a: "slice_index (length xs) (int k * int b) = min (k * b) (length xs)"
    by (simp add: slice_index_nonneg nat_mult_distrib)
  have "int k * int b + int b = int (k * b + b)" by simp
  then have b: "slice_index (length xs) (int k * int b + int b) = min (k * b + b) (length xs)"
    by (simp only: slice_index_nonneg nat_int of_nat_0_le_iff)
  show ?thesis
  proof (cases "k * b \<le> length xs")
    case True
    then show ?thesis
      unfolding py_slice_def Let_def a b by (simp add: min_def)
  next
    case False
    then show ?thesis
      unfolding py_slice_def Let_def a b by (simp add: min_def)
  qed
qed

lemma concat_chunks:
  "concat (map (\<lambda>k. take b (drop (k * b) xs)) [0..<m]) = take (m * b) xs"
proof (induction m)
  case 0
  then show ?case by simp
next
  case (Suc m)
  have "take (m * b) xs @ take b (drop (m * b) xs) = take (m * b + b) xs"
    by (simp add: take_add)
  with Suc show ?case by (simp add: add.commute)
qed

lemma range_len_covers:
  assumes "1 \<le> step"
  shows "n \<le> range_len 0 (int n) step * nat step"
proof (cases "n = 0")
  case True
  then show ?thesis by simp
next
  case False
  define q where "q = (int n - 1) div step"
  have step: "0 < step" using assms by simp
  have q0: "0 \<le> q" using False step by (simp add: q_def pos_imp_zdiv_nonneg_iff)
  have "int n - 1 = q * step + (int n - 1) mod step" by (simp add: q_def)
  moreover have "(int n - 1) mod step < step" using step by simp
  ultimately have le: "int n \<le> (q + 1) * step" by (simp add: algebra_simps)
  have len: "range_len 0 (int n) step = nat (q + 1)"
    using False step by (simp add: range_len_def q_def)
  have "int (nat (q + 1) * nat step) = (q + 1) * step" using q0 step by simp
  with le have "int n \<le> int (nat (q + 1) * nat step)" by simp
  then show ?thesis unfolding len by (simp only: of_nat_le_iff)
qed

lemma batched_addresses_ok:
  assumes "1 \<le> batch_size"
  shows "\<exists>batches. batched_addresses addresses batch_size = Inr batches \<and> concat batches = addresses"
proof -
  define b where "b = nat batch_size"
  have b: "0 < b" "batch_size = int b" using assms by (simp_all add: b_def)
  define m where "m = range_len 0 (int (length addresses)) batch_size"
  have r: "py_range 0 (int (length addresses)) batch_size = Inr (map (\<lambda>k. int k * int b) [0..<m])"
    using b by (simp add: py_range_def m_def)
  have "batched_addresses addresses batch_size =
      Inr (map (\<lambda>k. py_slice addresses (int k * int b) (int k * int b + int b)) [0..<m])"
    unfolding batched_addresses_def r by (simp add: bind_exn_def b(2) comp_def)
  then have eq: "batched_addresses addresses batch_size =
      Inr (map (\<lambda>k. take b (drop (k * b) addresses)) [0..<m])"
    by (simp only: py_slice_chunk [OF b(1)])
  have "length addresses \<le> m * b"
    unfolding m_def b_def by (rule range_len_covers [OF assms])
  then have "concat (map (\<lambda>k. take b (drop (k * b) addresses)) [0..<m]) = addresses"
    by (simp add: concat_chunks)
  with eq show ?thesis by blast
qed

section \<open>The loops\<close>

lemma geocode_address_eq:
  "geocode_address remote key a w =
     (remote (search_request key a), w\<lparr>net_log := net_log w @ [search_request key a]\<rparr>)"
  by (simp add: geocode_address_def search_request_def BASE_URL_def Let_def)

lemma geocode_step_eq:
  "geocode_step remote key a rows w =
     (case row_of remote key a of
        Inl e \<Rightarrow> (Inl e, w\<lparr>net_log := net_log w @ [search_request key a]\<rparr>)
      | Inr r \<Rightarrow>
          (Inr (rows @ [r]),
           w\<lparr>net_log := net_log w @ [search_request key a],
             stdout := stdout w @ lines_of remote key a\<rparr>))"
  by (simp add: geocode_step_def geocode_address_eq row_of_def lines_of_def bind_exn_def
      failed_row_def failed_line_def status_text_def py_print_def split: sum.splits)

lemma for_address_append:
  "for_address remote key (xs @ ys) rows w =
     (case for_address remote key xs rows w of
        (Inl e, w1) \<Rightarrow> (Inl e, w1)
      | (Inr rows1, w1) \<Rightarrow> for_address remote key ys rows1 w1)"
  by (induction xs arbitrary: rows w) (auto split: prod.splits sum.splits)

lemma for_batch_concat:
  "for_batch remote key batches rows w = for_address remote key (concat batches) rows w"
  by (induction batches arbitrary: rows w) (auto simp: for_address_append split: prod.splits sum.splits)

lemma one_at_a_time_simps:
  "one_at_a_time remote key (Inl e, w) a = (Inl e, w)"
  "one_at_a_time remote key (Inr rows, w) a = geocode_step remote key a rows w"
  by (simp_all add: one_at_a_time_def)

lemma foldl_one_at_a_time_Inl:
  "foldl (one_at_a_time remote key) (Inl e, w) xs = (Inl e, w)"
  by (induction xs) (simp_all add: one_at_a_time_simps)

lemma foldl_one_at_a_time:
  "foldl (one_at_a_time remote key) (Inr rows, w) xs = for_address remote key xs rows w"
proof (induction xs arbitrary: rows w)
  case Nil
  then show ?case by simp
next
  case (Cons a xs)
  show ?case
  proof (cases "geocode_step remote key a rows w")
    case (Pair res w1)
    then show ?thesis
      by (cases res) (simp_all add: one_at_a_time_simps foldl_one_at_a_time_Inl Cons.IH)
  qed
qed

lemma for_address_Inr:
  assumes "for_address remote key xs rows w = (Inr rows', w')"
  shows "\<exists>rs. rows' = rows @ rs \<and> map (row_of remote key) xs = map Inr rs \<and>
           net_log w' = net_log w @ map (search_request key) xs \<and>
           stdout w' = stdout w @ concat (map (lines_of remote key) xs) \<and>
           files w' = files w"
  using assms
proof (induction xs arbitrary: rows w)
  case Nil
  then show ?case by simp
next
  case (Cons a xs)
  from Cons.prems obtain r where r: "row_of remote key a = Inr r"
    by (cases "row_of remote key a") (simp_all add: geocode_step_eq)
  let ?w1 = "w\<lparr>net_log := net_log w @ [search_request key a],
             stdout := stdout w @ lines_of remote key a\<rparr>"
  from Cons.prems r have "for_address remote key xs (rows @ [r]) ?w1 = (Inr rows', w')"
    by (simp add: geocode_step_eq)
  from Cons.IH [OF this] obtain rs where
    "rows' = (rows @ [r]) @ rs" "map (row_of remote key) xs = map Inr rs"
    "net_log w' = net_log ?w1 @ map (search_request key) xs"
    "stdout w' = stdout ?w1 @ concat (map (lines_of remote key) xs)"
    "files w' = files ?w1" by blast
  then have "rows' = rows @ (r # rs) \<and> map (row_of remote key) (a # xs) = map Inr (r # rs) \<and>
           net_log w' = net_log w @ map (search_request key) (a # xs) \<and>
           stdout w' = stdout w @ concat (map (lines_of remote key) (a # xs)) \<and>
           files w' = files w"
    using r by simp
  then show ?case by blast
qed

lemma for_address_total:
  assumes "\<forall>a \<in> set xs. \<exists>r. row_of remote key a = Inr r"
  shows "\<exists>rows' w'. for_address remote key xs rows w = (Inr rows', w')"
  using assms
proof (induction xs arbitrary: rows w)
  case Nil
  then show ?case by simp
next
  case (Cons a xs)
  then obtain r where r: "row_of remote key a = Inr r" by auto
  from Cons show ?case by (simp add: geocode_step_eq r)
qed

lemma for_address_raises:
  assumes "a \<in> set xs" and "row_of remote key a = Inl e"
  shows "\<exists>e' w'. for_address remote key xs rows w = (Inl e', w') \<and> files w' = files w"
  using assms(1)
proof (induction xs arbitrary: rows w)
  case Nil
  then show ?case by simp
next
  case (Cons x xs)
  show ?case
  proof (cases "row_of remote key x")
    case (Inl e0)
    then show ?thesis by (simp add: geocode_step_eq)
  next
    case (Inr r)
    with Cons.prems assms(2) have "a \<in> set xs" by auto
    from Cons.IH [OF this, of "rows @ [r]"
        "w\<lparr>net_log := net_log w @ [search_request key x],
           stdout := stdout w @ lines_of remote key x\<rparr>"]
    show ?thesis by (simp add: geocode_step_eq Inr)
  qed
qed

lemma batch_eq_for_address:
  assumes "1 \<le> batch_size"
  shows "batch_geocode_addresses pd remote key addresses batch_size w =
     (case for_address remote key addresses [] w of
        (Inl e, w1) \<Rightarrow> (Inl e, w1)
      | (Inr all_results, w1) \<Rightarrow> (Inr (DataFrame pd all_results), w1))"
proof -
  from batched_addresses_ok [OF assms] obtain batches where
    "batched_addresses addresses batch_size = Inr batches" "concat batches = addresses"
    by blast
  then show ?thesis by (simp add: batch_geocode_addresses_def for_batch_concat)
qed

section \<open>The row of one address\<close>

lemma frame_rows_length: "length (frame_rows (DataFrame pd rs)) = length rs"
  by (simp add: DataFrame_def)

lemma frame_address_column: "map address (frame_rows (DataFrame pd rs)) = map address rs"
  by (simp add: DataFrame_def comp_def)

lemma frame_row_of_text:
  assumes "i < length rs"
    and "rs ! i = \<lparr>address = a, latitude = JStr s1, longitude = JStr s2,
                   confidence_score = JStr s3, precision_code = JStr s4\<rparr>"
  shows "frame_rows (DataFrame pd rs) ! i = rs ! i"
  using assms by (simp add: DataFrame_def stored_def)

lemma map_Inr_nth:
  assumes "map f xs = map Inr ys" and "i < length xs"
  shows "f (xs ! i) = Inr (ys ! i)"
proof -
  from assms(1) have "length xs = length ys" by (rule map_eq_imp_length_eq)
  moreover from assms(1) have "map f xs ! i = map Inr ys ! i" by simp
  ultimately show ?thesis using assms(2) by simp
qed

lemma batch_rows:
  assumes "1 \<le> batch_size"
    and "batch_geocode_addresses pd remote key addresses batch_size w = (Inr df, w')"
  shows "\<exists>rows. df = DataFrame pd rows \<and>
           map (row_of remote key) addresses = map Inr rows \<and>
           length rows = length addresses \<and>
           net_log w' = net_log w @ map (search_request key) addresses \<and>
           stdout w' = stdout w @ concat (map (lines_of remote key) addresses) \<and>
           files w' = files w"
proof -
  from assms obtain rows where
    f: "for_address remote key addresses [] w = (Inr rows, w')" and df: "df = DataFrame pd rows"
    by (auto simp: batch_eq_for_address split: prod.splits sum.splits)
  from for_address_Inr [OF f] have
    m: "map (row_of remote key) addresses = map Inr rows"
    and rest: "net_log w' = net_log w @ map (search_request key) addresses"
      "stdout w' = stdout w @ concat (map (lines_of remote key) addresses)"
      "files w' = files w"
    by auto
  from m have "length addresses = length rows" by (rule map_eq_imp_length_eq)
  with df m rest show ?thesis by auto
qed

lemma row_of_failed:
  assumes "remote (search_request key a) = Inr result" and "status_code result \<noteq> 200"
  shows "row_of remote key a = Inr (failed_row a (status_code result))"
    and "lines_of remote key a = [failed_line a (status_code result)]"
  using assms by (simp_all add: row_of_def lines_of_def bind_exn_def)

lemma row_of_no_match:
  assumes "remote (search_request key a) = Inr result" and "status_code result = 200"
    and "body result = Some d" and "getitem_str d ''addresses'' = Inr (JArr [])"
  shows "row_of remote key a = Inr (no_match_row a)"
    and "lines_of remote key a = []"
  using assms
  by (simp_all add: row_of_def lines_of_def bind_exn_def on_status_200_def response_json_def
      no_match_row_def)

lemma row_of_matched:
  assumes "remote (search_request key a) = Inr result" and "status_code result = 200"
    and "body result = Some d" and "getitem_str d ''addresses'' = Inr (JArr (m # rest))"
    and "getpath m [''location'', ''representativePoint'', ''latitude''] = Inr lat"
    and "getpath m [''location'', ''representativePoint'', ''longitude''] = Inr lon"
    and "getpath m [''$metadata'', ''geocode'', ''confidence'', ''score''] = Inr score"
    and "getpath m [''$metadata'', ''geocode'', ''precisionCode''] = Inr prec"
  shows "row_of remote key a =
           Inr \<lparr>address = a, latitude = lat, longitude = lon, confidence_score = score,
                precision_code = prec\<rparr>"
    and "lines_of remote key a = []"
proof -
  have "matched_row a d = Inr \<lparr>address = a, latitude = lat, longitude = lon,
      confidence_score = score, precision_code = prec\<rparr>"
    by (simp add: matched_row_def assms(4-8) bind_exn_def index_seq_def del: getpath.simps)
  then show "row_of remote key a =
           Inr \<lparr>address = a, latitude = lat, longitude = lon, confidence_score = score,
                precision_code = prec\<rparr>"
    using assms(1-4) by (simp add: row_of_def bind_exn_def on_status_200_def response_json_def)
  show "lines_of remote key a = []" using assms(1,2) by (simp add: lines_of_def)
qed

lemma matched_row_lacks:
  assumes "getitem_str d ''addresses'' = Inr (JArr (m # rest))" and "\<not> well_formed_match m"
  shows "\<exists>e. matched_row a d = Inl e"
proof -
  from assms(2) consider
      (1) e where "getpath m [''location'', ''representativePoint'', ''latitude''] = Inl e"
    | (2) e where "getpath m [''location'', ''representativePoint'', ''longitude''] = Inl e"
    | (3) e where "getpath m [''$metadata'', ''geocode'', ''confidence'', ''score''] = Inl e"
    | (4) e where "getpath m [''$metadata'', ''geocode'', ''precisionCode''] = Inl e"
    unfolding well_formed_match_def has_path_def
    by (auto simp del: getpath.simps split: sum.splits)
  then show ?thesis
  proof cases
    case 1
    then show ?thesis
      by (simp add: matched_row_def assms(1) bind_exn_def index_seq_def del: getpath.simps
          split: sum.splits)
  next
    case 2
    then show ?thesis
      by (simp add: matched_row_def assms(1) bind_exn_def index_seq_def del: getpath.simps
          split: sum.splits)
  next
    case 3
    then show ?thesis
      by (simp add: matched_row_def assms(1) bind_exn_def index_seq_def del: getpath.simps
          split: sum.splits)
  next
    case 4
    then show ?thesis
      by (simp add: matched_row_def assms(1) bind_exn_def index_seq_def del: getpath.simps
          split: sum.splits)
  qed
qed

lemma row_of_lacks:
  assumes "remote (search_request key a) = Inr result" and "status_code result = 200"
    and "body result = Some d" and "lacks_expected_field d"
  shows "\<exists>e. row_of remote key a = Inl e"
proof (cases "getitem_str d ''addresses''")
  case (Inl e)
  with assms(1-3) show ?thesis
    by (simp add: row_of_def bind_exn_def on_status_200_def response_json_def)
next
  case (Inr v)
  with assms(4) obtain m rest where v: "v = JArr (m # rest)" and m: "\<not> well_formed_match m"
    by (auto simp: lacks_expected_field_def split: json.splits list.splits)
  from matched_row_lacks [OF Inr [unfolded v] m, of a] obtain e where "matched_row a d = Inl e" ..
  with assms(1-3) Inr v show ?thesis
    by (simp add: row_of_def bind_exn_def on_status_200_def response_json_def)
qed

lemma row_of_well_formed:
  assumes "remote (search_request key a) = Inr result" and "well_formed_response result"
  shows "\<exists>r. row_of remote key a = Inr r"
proof (cases "status_code result = 200")
  case False
  with assms(1) show ?thesis by (simp add: row_of_def bind_exn_def)
next
  case True
  with assms(2) obtain d ms where d: "body result = Some d"
    and ms: "getitem_str d ''addresses'' = Inr (JArr ms)" and wf: "list_all well_formed_match ms"
    by (auto simp: well_formed_response_def well_formed_body_def
        split: option.splits sum.splits json.splits)
  show ?thesis
  proof (cases ms)
    case Nil
    with row_of_no_match(1) [of remote key a result d] assms(1) True d ms show ?thesis by simp
  next
    case (Cons m rest)
    with wf have "well_formed_match m" by simp
    then obtain lat lon score prec where
      "getpath m [''location'', ''representativePoint'', ''latitude''] = Inr lat"
      "getpath m [''location'', ''representativePoint'', ''longitude''] = Inr lon"
      "getpath m [''$metadata'', ''geocode'', ''confidence'', ''score''] = Inr score"
      "getpath m [''$metadata'', ''geocode'', ''precisionCode''] = Inr prec"
      unfolding well_formed_match_def has_path_def
      by (auto simp del: getpath.simps split: sum.splits)
    with row_of_matched(1) [of remote key a result d m rest lat lon score prec]
      assms(1) True d ms Cons
    show ?thesis by (simp del: getpath.simps)
  qed
qed

lemma row_of_address: "row_of remote key a = Inr r \<Longrightarrow> address r = a"
  by (auto simp: row_of_def bind_exn_def on_status_200_def matched_row_def failed_row_def
      split: sum.splits if_splits)

lemma rows_address_column:
  assumes "map (row_of remote key) addresses = map Inr rows"
  shows "map address rows = addresses"
proof (rule nth_equalityI)
  from assms have l: "length addresses = length rows" by (rule map_eq_imp_length_eq)
  then show "length (map address rows) = length addresses" by simp
  fix i assume "i < length (map address rows)"
  then have i: "i < length addresses" using l by simp
  from map_Inr_nth [OF assms i] have "address (rows ! i) = addresses ! i"
    by (rule row_of_address)
  with i l show "map address rows ! i = addresses ! i" by simp
qed

lemma batch_address_column:
  assumes "1 \<le> batch_size"
    and "batch_geocode_addresses pd remote key addresses batch_size w = (Inr df, w')"
  shows "map address (frame_rows df) = addresses"
proof -
  from batch_rows [OF assms] obtain rows where
    "df = DataFrame pd rows" "map (row_of remote key) addresses = map Inr rows" by blast
  then show ?thesis by (simp add: frame_address_column rows_address_column)
qed

section \<open>The rows of a regular file\<close>




section \<open>The example service, evaluated\<close>

lemma str_int_404: "str_int 404 = ''404''"
  by (simp add: str_int_def str_nat.simps digit_char_def)

lemma example_remote_simps:
  "example_remote (search_request k ''A'') =
     Inr \<lparr>status_code = 200, body = Some (JObj [(''addresses'', JArr [candidate_1, candidate_2])])\<rparr>"
  "example_remote (search_request k ''B'') =
     Inr \<lparr>status_code = 200, body = Some (JObj [(''addresses'', JArr [])])\<rparr>"
  "example_remote (search_request k ''C'') = Inr \<lparr>status_code = 404, body = None\<rparr>"
  "example_remote (search_request k ''D'') =
     Inr \<lparr>status_code = 200, body = Some (JObj [(''error'', JStr ''unexpected'')])\<rparr>"
  by (simp_all add: example_remote_def search_request_def)

lemma candidate_1_paths:
  "getpath candidate_1 [''location'', ''representativePoint'', ''latitude''] = Inr (JFloat 40 0)"
  "getpath candidate_1 [''location'', ''representativePoint'', ''longitude''] = Inr (JFloat (-75) 0)"
  "getpath candidate_1 [''$metadata'', ''geocode'', ''confidence'', ''score''] = Inr (JInt 97)"
  "getpath candidate_1 [''$metadata'', ''geocode'', ''precisionCode''] = Inr (JStr ''P1'')"
  by (simp_all add: candidate_1_def bind_exn_def)

lemma example_rows:
  "row_of example_remote k ''A'' =
     Inr \<lparr>address = ''A'', latitude = JFloat 40 0, longitude = JFloat (-75) 0,
          confidence_score = JInt 97, precision_code = JStr ''P1''\<rparr>"
  "row_of example_remote k ''B'' = Inr (no_match_row ''B'')"
  "row_of example_remote k ''C'' = Inr (failed_row ''C'' 404)"
  "row_of example_remote k ''D'' = Inl KeyError"
  "lines_of example_remote k ''A'' = []"
  "lines_of example_remote k ''B'' = []"
  "lines_of example_remote k ''C'' = [failed_line ''C'' 404]"
  by (simp_all add: row_of_def lines_of_def example_remote_simps bind_exn_def on_status_200_def
      response_json_def matched_row_def index_seq_def candidate_1_paths no_match_row_def
      del: getpath.simps)

lemma example_run:
  "batch_geocode_addresses example_pandas example_remote ''key'' [''A'', ''B'', ''C''] 2 example_world =
     (Inr (DataFrame example_pandas
        [\<lparr>address = ''A'', latitude = JFloat 40 0, longitude = JFloat (-75) 0,
           confidence_score = JInt 97, precision_code = JStr ''P1''\<rparr>,
         no_match_row ''B'', failed_row ''C'' 404]),
      example_world\<lparr>net_log := map (search_request ''key'') [''A'', ''B'', ''C''],
        stdout := [failed_line ''C'' 404]\<rparr>)"
  by (simp add: batch_eq_for_address geocode_step_eq example_rows example_world_def)

section \<open>Claims about the batch driver, the clients and the sink\<close>

text \<open>
  C3. For every address list, every batch size of at least 1 and every fixed mapping from
  request to response, the batch driver returns the same outcome (the same rows in the same
  order, or the same exception) and leaves the same world (the same requests sent in the same
  order, the same lines printed) as the unbatched iteration over the whole list, one address at
  a time.
\<close>

theorem batching_is_noop:
  assumes "1 \<le> batch_size"
  shows "batch_geocode_addresses pd remote api_key addresses batch_size w =
         unbatched_geocode_addresses pd remote api_key addresses w"
  by (simp add: batch_eq_for_address [OF assms] unbatched_geocode_addresses_def
      foldl_one_at_a_time)

theorem batching_is_noop_witness:
  "(1::int) \<le> 2 \<and>
   batch_geocode_addresses example_pandas example_remote ''key'' [''A'', ''B'', ''C''] 2 example_world =
   unbatched_geocode_addresses example_pandas example_remote ''key'' [''A'', ''B'', ''C''] example_world \<and>
   map address (case fst (batch_geocode_addresses example_pandas example_remote ''key'' [''A'', ''B'', ''C''] 2
      example_world) of Inr df \<Rightarrow> frame_rows df | Inl e \<Rightarrow> []) = [''A'', ''B'', ''C'']"
proof -
  have h: "(1::int) \<le> 2" by simp
  have "map address (case fst (unbatched_geocode_addresses example_pandas example_remote ''key'' [''A'', ''B'', ''C'']
      example_world) of Inr df \<Rightarrow> frame_rows df | Inl e \<Rightarrow> []) = [''A'', ''B'', ''C'']"
    by (simp add: unbatched_geocode_addresses_def one_at_a_time_simps geocode_step_eq row_of_def
        example_remote_def search_request_def bind_exn_def on_status_200_def response_json_def
        matched_row_def candidate_1_def index_seq_def DataFrame_def failed_row_def)
  with batching_is_noop [OF h, of example_pandas example_remote "''key''" "[''A'', ''B'', ''C'']" example_world]
  show ?thesis by simp
qed

text \<open>
  C8. Every call of a geocode client sends exactly one GET request, to the fixed base URL
  followed by the fixed endpoint path, with the address as the \<open>text\<close> query parameter and
  the API key in the \<open>x-api-key\<close> header; only the autocomplete client adds a
  \<open>countryCode\<close> query parameter. Whatever the outcome of the request (a transport
  failure or a response of any status), the log of requests grows by this one request and the
  outcome is handed back unchanged: nothing is sent again.
\<close>

theorem clients_send_one_get:
  "geocode_address remote api_key addr w =
     (remote (search_request api_key addr),
      w\<lparr>net_log := net_log w @ [search_request api_key addr]\<rparr>) \<and>
   autocomplete_address remote api_key addr country_code w =
     (remote (autocomplete_request api_key addr country_code),
      w\<lparr>net_log := net_log w @ [autocomplete_request api_key addr country_code]\<rparr>) \<and>
   search_request api_key addr =
     \<lparr>http_method = GET, url = BASE_URL @ ''/addresses/search'',
      params = [(''text'', addr)], headers = [(''x-api-key'', api_key)]\<rparr> \<and>
   autocomplete_request api_key addr country_code =
     \<lparr>http_method = GET, url = BASE_URL @ ''/addresses/_autocomplete'',
      params = [(''text'', addr), (''countryCode'', country_code)],
      headers = [(''x-api-key'', api_key)]\<rparr> \<and>
   map_of (params (search_request api_key addr)) ''countryCode'' = None"
  by (simp add: geocode_address_def autocomplete_address_def search_request_def
      autocomplete_request_def BASE_URL_def Let_def)

text \<open>
  C9. For the empty address list and a batch size other than 0, the batch driver sends no
  request and returns a frame with no rows and no columns; the script, which uses the default
  batch size of 200, then writes a file whose header has no column name and which has no
  data record.
\<close>

theorem empty_list_gives_empty_frame:
  assumes "batch_size \<noteq> 0"
  shows "batch_geocode_addresses pd remote api_key [] batch_size w =
           (Inr \<lparr>columns = [], frame_rows = []\<rparr>, w) \<and>
         (\<exists>w'. geocode_and_save pd remote api_key [] path w = (Inr (), w') \<and>
               net_log w' = net_log w \<and>
               files w' path = Some \<lparr>header = [], records = []\<rparr>)"
proof -
  have "range_len 0 0 n = 0" for n by (simp add: range_len_def)
  then have b: "batched_addresses [] n = Inr []" if "n \<noteq> 0" for n
    using that by (simp add: batched_addresses_def py_range_def bind_exn_def)
  have 1: "batch_geocode_addresses pd remote api_key [] n w0 = (Inr \<lparr>columns = [], frame_rows = []\<rparr>, w0)"
    if "n \<noteq> 0" for n w0
    by (simp add: batch_geocode_addresses_def b [OF that] DataFrame_def)
  have 2: "\<exists>w'. geocode_and_save pd remote api_key [] path w = (Inr (), w') \<and>
               net_log w' = net_log w \<and>
               files w' path = Some \<lparr>header = [], records = []\<rparr>"
    by (simp add: geocode_and_save_def 1 py_print_def to_csv_def)
  from 1 [OF assms] 2 show ?thesis by blast
qed

theorem empty_list_gives_empty_frame_witness:
  "(200::int) \<noteq> 0 \<and>
   batch_geocode_addresses example_pandas example_remote ''key'' [] 200 example_world =
     (Inr \<lparr>columns = [], frame_rows = []\<rparr>, example_world) \<and>
   net_log (snd (geocode_and_save example_pandas example_remote ''key'' [] ''output.csv'' example_world)) = [] \<and>
   files (snd (geocode_and_save example_pandas example_remote ''key'' [] ''output.csv'' example_world)) ''output.csv''
     = Some \<lparr>header = [], records = []\<rparr>"
proof -
  have h: "(200::int) \<noteq> 0" by simp
  from empty_list_gives_empty_frame [OF h, of example_pandas example_remote "''key''" example_world "''output.csv''"]
  show ?thesis by (auto simp: example_world_def)
qed

text \<open>
  C1, as amended. For every address whose response has a status code other than 200, the row
  appended has latitude "Failed", longitude the status-code text (such as "Status Code: 404"),
  confidence_score "Failed" and precision_code "Failed", and one line naming the address and
  the status code is printed. In a run with a batch size of at least 1 that returns, the row is
  at the position of the address in the result, and the line is among the lines printed.
\<close>

theorem failed_request_row:
  assumes "remote (search_request api_key a) = Inr result"
    and "status_code result \<noteq> 200"
  shows "geocode_step remote api_key a all_results w =
           (Inr (all_results @ [failed_row a (status_code result)]),
            w\<lparr>net_log := net_log w @ [search_request api_key a],
              stdout := stdout w @ [failed_line a (status_code result)]\<rparr>) \<and>
         (\<forall>batch_size addresses w0 df w'.
            1 \<le> batch_size \<longrightarrow> a \<in> set addresses \<longrightarrow>
            batch_geocode_addresses pd remote api_key addresses batch_size w0 = (Inr df, w') \<longrightarrow>
            (\<forall>i < length addresses. addresses ! i = a \<longrightarrow>
               frame_rows df ! i = failed_row a (status_code result)) \<and>
            failed_line a (status_code result) \<in> set (stdout w'))"
proof (intro conjI allI impI)
  note r = row_of_failed [of remote api_key a result, OF assms]
  show "geocode_step remote api_key a all_results w =
           (Inr (all_results @ [failed_row a (status_code result)]),
            w\<lparr>net_log := net_log w @ [search_request api_key a],
              stdout := stdout w @ [failed_line a (status_code result)]\<rparr>)"
    by (simp add: geocode_step_eq r)
  fix batch_size :: int and addresses w0 df w'
  assume b: "1 \<le> batch_size" and mem: "a \<in> set addresses"
    and run: "batch_geocode_addresses pd remote api_key addresses batch_size w0 = (Inr df, w')"
  from batch_rows [OF b run] obtain rows where df: "df = DataFrame pd rows"
    and m: "map (row_of remote api_key) addresses = map Inr rows"
    and l: "length rows = length addresses"
    and out: "stdout w' = stdout w0 @ concat (map (lines_of remote api_key) addresses)"
    by blast
  show "frame_rows df ! i = failed_row a (status_code result)"
    if i: "i < length addresses" "addresses ! i = a" for i
  proof -
    from map_Inr_nth [OF m i(1)] i(2) r(1)
    have ri: "rows ! i = failed_row a (status_code result)" by simp
    from i(1) l have "i < length rows" by simp
    from frame_row_of_text [OF this ri [unfolded failed_row_def]] ri df
    show ?thesis by simp
  qed
  from out mem r(2) show "failed_line a (status_code result) \<in> set (stdout w')"
    by force
qed

theorem failed_request_row_witness:
  "example_remote (search_request ''key'' ''C'') = Inr \<lparr>status_code = 404, body = None\<rparr> \<and>
   status_code \<lparr>status_code = 404, body = None\<rparr> \<noteq> 200 \<and>
   geocode_step example_remote ''key'' ''C'' [] example_world =
     (Inr [\<lparr>address = ''C'', latitude = JStr ''Failed'', longitude = JStr ''Status Code: 404'',
            confidence_score = JStr ''Failed'', precision_code = JStr ''Failed''\<rparr>],
      example_world\<lparr>net_log := [search_request ''key'' ''C''],
        stdout := [''Failed to geocode address '' @ [CHR 0x27] @ ''C'' @ [CHR 0x27] @
                   '', Status Code: 404'']\<rparr>)"
proof -
  have h1: "example_remote (search_request ''key'' ''C'') = Inr \<lparr>status_code = 404, body = None\<rparr>"
    by (rule example_remote_simps)
  have h2: "status_code \<lparr>status_code = 404, body = None\<rparr> \<noteq> 200" by simp
  from failed_request_row [of example_remote "''key''" "''C''", OF h1 h2, of "[]" example_world]
  have "geocode_step example_remote ''key'' ''C'' [] example_world =
     (Inr [failed_row ''C'' 404],
      example_world\<lparr>net_log := net_log example_world @ [search_request ''key'' ''C''],
        stdout := stdout example_world @ [failed_line ''C'' 404]\<rparr>)"
    by simp
  then show ?thesis using h1
    by (simp add: failed_row_def failed_line_def status_text_def str_int_404 example_world_def)
qed

text \<open>
  C1, as stated, fails: for a response with status 404 the row appended does not have
  longitude "Failed" and confidence_score "Status Code: 404"; the two fields are the other
  way round.
\<close>

theorem failed_row_as_specified_counterexample:
  "example_remote (search_request ''key'' ''C'') = Inr \<lparr>status_code = 404, body = None\<rparr> \<and>
   fst (geocode_step example_remote ''key'' ''C'' [] example_world) =
     Inr [\<lparr>address = ''C'', latitude = JStr ''Failed'', longitude = JStr ''Status Code: 404'',
            confidence_score = JStr ''Failed'', precision_code = JStr ''Failed''\<rparr>] \<and>
   fst (geocode_step example_remote ''key'' ''C'' [] example_world) \<noteq>
     Inr [\<lparr>address = ''C'', latitude = JStr ''Failed'', longitude = JStr ''Failed'',
            confidence_score = JStr ''Status Code: 404'', precision_code = JStr ''Failed''\<rparr>]"
  by (simp add: geocode_step_eq row_of_def example_remote_simps bind_exn_def failed_row_def
      status_text_def str_int_404)

text \<open>
  C2. For every list of addresses whose requests are each answered with a well-formed response,
  and a batch size of at least 1, the batch driver returns a frame with exactly one row per
  address, in the order of the list: the frame is made of the list that has at position \<open>i\<close>
  the row of address \<open>i\<close>, it has as many rows as there are addresses, and its address column
  is the input list itself, duplicates included.
\<close>

theorem one_row_per_address_in_order:
  assumes "1 \<le> batch_size"
    and "\<forall>a \<in> set addresses. \<exists>result.
           remote (search_request api_key a) = Inr result \<and> well_formed_response result"
  shows "\<exists>rows df w'.
           batch_geocode_addresses pd remote api_key addresses batch_size w = (Inr df, w') \<and>
           df = DataFrame pd rows \<and>
           map (row_of remote api_key) addresses = map Inr rows \<and>
           length (frame_rows df) = length addresses \<and>
           map address (frame_rows df) = addresses"
proof -
  from assms(2) have "\<forall>a \<in> set addresses. \<exists>r. row_of remote api_key a = Inr r"
    using row_of_well_formed by blast
  from for_address_total [OF this] obtain rows w' where
    f: "for_address remote api_key addresses [] w = (Inr rows, w')" by blast
  then have run: "batch_geocode_addresses pd remote api_key addresses batch_size w =
      (Inr (DataFrame pd rows), w')"
    by (simp add: batch_eq_for_address [OF assms(1)])
  from for_address_Inr [OF f]
  have m: "map (row_of remote api_key) addresses = map Inr rows" by auto
  then have "length addresses = length rows" by (rule map_eq_imp_length_eq)
  then have l: "length (frame_rows (DataFrame pd rows)) = length addresses"
    by (simp add: frame_rows_length)
  have "map address (frame_rows (DataFrame pd rows)) = addresses"
    by (rule batch_address_column [OF assms(1) run])
  with run m l show ?thesis by blast
qed

theorem one_row_per_address_in_order_witness:
  "(1::int) \<le> 2 \<and>
   example_remote (search_request ''key'' ''A'') =
     Inr \<lparr>status_code = 200,
          body = Some (JObj [(''addresses'', JArr [candidate_1, candidate_2])])\<rparr> \<and>
   well_formed_response
     \<lparr>status_code = 200,
      body = Some (JObj [(''addresses'', JArr [candidate_1, candidate_2])])\<rparr> \<and>
   example_remote (search_request ''key'' ''B'') =
     Inr \<lparr>status_code = 200, body = Some (JObj [(''addresses'', JArr [])])\<rparr> \<and>
   well_formed_response \<lparr>status_code = 200, body = Some (JObj [(''addresses'', JArr [])])\<rparr> \<and>
   example_remote (search_request ''key'' ''C'') = Inr \<lparr>status_code = 404, body = None\<rparr> \<and>
   well_formed_response \<lparr>status_code = 404, body = None\<rparr> \<and>
   (\<exists>rows df w'.
      batch_geocode_addresses example_pandas example_remote ''key'' [''A'', ''B'', ''A'', ''C''] 2
        example_world = (Inr df, w') \<and>
      df = DataFrame example_pandas rows \<and>
      map (row_of example_remote ''key'') [''A'', ''B'', ''A'', ''C''] = map Inr rows \<and>
      length (frame_rows df) = 4 \<and>
      map address (frame_rows df) = [''A'', ''B'', ''A'', ''C''])"
proof -
  have h1: "(1::int) \<le> 2" by simp
  have wf: "well_formed_match candidate_1" "well_formed_match candidate_2"
    by (simp_all add: well_formed_match_def has_path_def candidate_1_def candidate_2_def
        bind_exn_def)
  have a: "well_formed_response
     \<lparr>status_code = 200,
      body = Some (JObj [(''addresses'', JArr [candidate_1, candidate_2])])\<rparr>"
    by (simp add: well_formed_response_def well_formed_body_def wf)
  have b: "well_formed_response
     \<lparr>status_code = 200, body = Some (JObj [(''addresses'', JArr [])])\<rparr>"
    by (simp add: well_formed_response_def well_formed_body_def)
  have c: "well_formed_response \<lparr>status_code = 404, body = None\<rparr>"
    by (simp add: well_formed_response_def)
  have h2: "\<forall>a \<in> set [''A'', ''B'', ''A'', ''C'']. \<exists>result.
      example_remote (search_request ''key'' a) = Inr result \<and> well_formed_response result"
    using a b c by (simp add: example_remote_simps)
  from one_row_per_address_in_order [OF h1 h2, of example_pandas example_world]
  have "\<exists>rows df w'.
      batch_geocode_addresses example_pandas example_remote ''key'' [''A'', ''B'', ''A'', ''C''] 2
        example_world = (Inr df, w') \<and>
      df = DataFrame example_pandas rows \<and>
      map (row_of example_remote ''key'') [''A'', ''B'', ''A'', ''C''] = map Inr rows \<and>
      length (frame_rows df) = 4 \<and>
      map address (frame_rows df) = [''A'', ''B'', ''A'', ''C'']"
    by (simp add: eval_nat_numeral)
  with h1 a b c show ?thesis by (simp add: example_remote_simps)
qed

text \<open>
  C4. For every address whose response has status 200 and a non-empty \<open>addresses\<close> array, the
  row appended takes latitude and longitude from \<open>location.representativePoint\<close> of the first
  element, and confidence_score and precision_code from \<open>$metadata.geocode\<close> of the first
  element; the row is the same whatever elements follow the first. In a run with a batch size
  of at least 1 that returns, the list the frame is made of has this row at the position of the
  address.
\<close>

theorem matched_row_from_first_candidate:
  assumes "remote (search_request api_key a) = Inr result"
    and "status_code result = 200"
    and "body result = Some d"
    and "getitem_str d ''addresses'' = Inr (JArr (m # rest))"
    and "getpath m [''location'', ''representativePoint'', ''latitude''] = Inr lat"
    and "getpath m [''location'', ''representativePoint'', ''longitude''] = Inr lon"
    and "getpath m [''$metadata'', ''geocode'', ''confidence'', ''score''] = Inr score"
    and "getpath m [''$metadata'', ''geocode'', ''precisionCode''] = Inr prec"
  shows "geocode_step remote api_key a all_results w =
           (Inr (all_results @
              [\<lparr>address = a, latitude = lat, longitude = lon, confidence_score = score,
                precision_code = prec\<rparr>]),
            w\<lparr>net_log := net_log w @ [search_request api_key a]\<rparr>) \<and>
         (\<forall>batch_size addresses w0 df w'.
            1 \<le> batch_size \<longrightarrow>
            batch_geocode_addresses pd remote api_key addresses batch_size w0 = (Inr df, w') \<longrightarrow>
            (\<exists>rows. df = DataFrame pd rows \<and> length rows = length addresses \<and>
               (\<forall>i < length addresses. addresses ! i = a \<longrightarrow>
                  rows ! i =
                    \<lparr>address = a, latitude = lat, longitude = lon, confidence_score = score,
                     precision_code = prec\<rparr>)))"
proof (intro conjI allI impI)
  note r = row_of_matched [of remote api_key a result d m rest lat lon score prec, OF assms]
  show "geocode_step remote api_key a all_results w =
           (Inr (all_results @
              [\<lparr>address = a, latitude = lat, longitude = lon, confidence_score = score,
                precision_code = prec\<rparr>]),
            w\<lparr>net_log := net_log w @ [search_request api_key a]\<rparr>)"
    by (simp add: geocode_step_eq r)
  fix batch_size :: int and addresses w0 df w'
  assume b: "1 \<le> batch_size"
    and run: "batch_geocode_addresses pd remote api_key addresses batch_size w0 = (Inr df, w')"
  from batch_rows [OF b run] obtain rows where df: "df = DataFrame pd rows"
    and m: "map (row_of remote api_key) addresses = map Inr rows"
    and l: "length rows = length addresses"
    by blast
  have "rows ! i =
      \<lparr>address = a, latitude = lat, longitude = lon, confidence_score = score,
       precision_code = prec\<rparr>"
    if "i < length addresses" "addresses ! i = a" for i
    using map_Inr_nth [OF m that(1)] that(2) r(1) by simp
  with df l show "\<exists>rows. df = DataFrame pd rows \<and> length rows = length addresses \<and>
      (\<forall>i < length addresses. addresses ! i = a \<longrightarrow>
         rows ! i =
           \<lparr>address = a, latitude = lat, longitude = lon, confidence_score = score,
            precision_code = prec\<rparr>)"
    by blast
qed

theorem matched_row_from_first_candidate_witness:
  "example_remote (search_request ''key'' ''A'') =
     Inr \<lparr>status_code = 200,
          body = Some (JObj [(''addresses'', JArr [candidate_1, candidate_2])])\<rparr> \<and>
   getitem_str (JObj [(''addresses'', JArr [candidate_1, candidate_2])]) ''addresses'' =
     Inr (JArr (candidate_1 # [candidate_2])) \<and>
   getpath candidate_1 [''location'', ''representativePoint'', ''latitude''] = Inr (JFloat 40 0) \<and>
   getpath candidate_1 [''location'', ''representativePoint'', ''longitude''] = Inr (JFloat (-75) 0) \<and>
   getpath candidate_1 [''$metadata'', ''geocode'', ''confidence'', ''score''] = Inr (JInt 97) \<and>
   getpath candidate_1 [''$metadata'', ''geocode'', ''precisionCode''] = Inr (JStr ''P1'') \<and>
   geocode_step example_remote ''key'' ''A'' [] example_world =
     (Inr [\<lparr>address = ''A'', latitude = JFloat 40 0, longitude = JFloat (-75) 0,
            confidence_score = JInt 97, precision_code = JStr ''P1''\<rparr>],
      example_world\<lparr>net_log := [search_request ''key'' ''A'']\<rparr>)"
proof -
  let ?d = "JObj [(''addresses'', JArr [candidate_1, candidate_2])]"
  let ?r = "\<lparr>status_code = 200, body = Some ?d\<rparr>"
  have h1: "example_remote (search_request ''key'' ''A'') = Inr ?r"
    by (rule example_remote_simps)
  have h2: "status_code ?r = 200" by simp
  have h3: "body ?r = Some ?d" by simp
  have h4: "getitem_str ?d ''addresses'' = Inr (JArr (candidate_1 # [candidate_2]))" by simp
  from matched_row_from_first_candidate [of example_remote "''key''" "''A''" ?r ?d candidate_1
      "[candidate_2]" "JFloat 40 0" "JFloat (-75) 0" "JInt 97" "JStr ''P1''",
      OF h1 h2 h3 h4 candidate_1_paths, of "[]" example_world]
  show ?thesis using h1 h4 candidate_1_paths by (simp add: example_world_def del: getpath.simps)
qed

text \<open>
  C5. For every address whose response has status 200 and an empty \<open>addresses\<close> array, the
  row appended has latitude, longitude, confidence_score and precision_code all equal to the
  text "No match". In a run with a batch size of at least 1 that returns, this row is at the
  position of the address in the result.
\<close>

theorem no_match_row_all_fields:
  assumes "remote (search_request api_key a) = Inr result"
    and "status_code result = 200"
    and "body result = Some d"
    and "getitem_str d ''addresses'' = Inr (JArr [])"
  shows "geocode_step remote api_key a all_results w =
           (Inr (all_results @
              [\<lparr>address = a, latitude = JStr ''No match'', longitude = JStr ''No match'',
                confidence_score = JStr ''No match'', precision_code = JStr ''No match''\<rparr>]),
            w\<lparr>net_log := net_log w @ [search_request api_key a]\<rparr>) \<and>
         (\<forall>batch_size addresses w0 df w'.
            1 \<le> batch_size \<longrightarrow>
            batch_geocode_addresses pd remote api_key addresses batch_size w0 = (Inr df, w') \<longrightarrow>
            (\<forall>i < length addresses. addresses ! i = a \<longrightarrow>
               frame_rows df ! i =
                 \<lparr>address = a, latitude = JStr ''No match'', longitude = JStr ''No match'',
                  confidence_score = JStr ''No match'', precision_code = JStr ''No match''\<rparr>))"
proof (intro conjI allI impI)
  note r = row_of_no_match [of remote api_key a result d, OF assms, unfolded no_match_row_def]
  show "geocode_step remote api_key a all_results w =
           (Inr (all_results @
              [\<lparr>address = a, latitude = JStr ''No match'', longitude = JStr ''No match'',
                confidence_score = JStr ''No match'', precision_code = JStr ''No match''\<rparr>]),
            w\<lparr>net_log := net_log w @ [search_request api_key a]\<rparr>)"
    by (simp add: geocode_step_eq r)
  fix batch_size :: int and addresses w0 df w' i
  assume b: "1 \<le> batch_size"
    and run: "batch_geocode_addresses pd remote api_key addresses batch_size w0 = (Inr df, w')"
    and i: "i < length addresses" "addresses ! i = a"
  from batch_rows [OF b run] obtain rows where df: "df = DataFrame pd rows"
    and m: "map (row_of remote api_key) addresses = map Inr rows"
    and l: "length rows = length addresses"
    by blast
  from map_Inr_nth [OF m i(1)] i(2) r(1)
  have ri: "rows ! i =
      \<lparr>address = a, latitude = JStr ''No match'', longitude = JStr ''No match'',
       confidence_score = JStr ''No match'', precision_code = JStr ''No match''\<rparr>" by simp
  from i(1) l have "i < length rows" by simp
  from frame_row_of_text [OF this ri] ri df
  show "frame_rows df ! i =
      \<lparr>address = a, latitude = JStr ''No match'', longitude = JStr ''No match'',
       confidence_score = JStr ''No match'', precision_code = JStr ''No match''\<rparr>"
    by simp
qed

theorem no_match_row_all_fields_witness:
  "example_remote (search_request ''key'' ''B'') =
     Inr \<lparr>status_code = 200, body = Some (JObj [(''addresses'', JArr [])])\<rparr> \<and>
   getitem_str (JObj [(''addresses'', JArr [])]) ''addresses'' = Inr (JArr []) \<and>
   geocode_step example_remote ''key'' ''B'' [] example_world =
     (Inr [\<lparr>address = ''B'', latitude = JStr ''No match'', longitude = JStr ''No match'',
            confidence_score = JStr ''No match'', precision_code = JStr ''No match''\<rparr>],
      example_world\<lparr>net_log := [search_request ''key'' ''B'']\<rparr>)"
proof -
  let ?d = "JObj [(''addresses'', JArr [])]"
  let ?r = "\<lparr>status_code = 200, body = Some ?d\<rparr>"
  have h1: "example_remote (search_request ''key'' ''B'') = Inr ?r"
    by (rule example_remote_simps)
  have h2: "status_code ?r = 200" by simp
  have h3: "body ?r = Some ?d" by simp
  have h4: "getitem_str ?d ''addresses'' = Inr (JArr [])" by simp
  from no_match_row_all_fields [of example_remote "''key''" "''B''" ?r ?d, OF h1 h2 h3 h4,
      of "[]" example_world]
  show ?thesis using h1 h4 by (simp add: example_world_def)
qed

text \<open>
  C6. When the response for some address of the list has status 200 and a body that lacks an
  expected field, the step for that address raises, the batch driver (batch size at least 1)
  raises instead of returning a frame, so that the rows collected for earlier addresses are
  gone, and the script ends with that exception without writing any file.
\<close>

theorem malformed_body_aborts_run:
  assumes "1 \<le> batch_size"
    and "a \<in> set addresses"
    and "remote (search_request api_key a) = Inr result"
    and "status_code result = 200"
    and "body result = Some d"
    and "lacks_expected_field d"
  shows "(\<exists>e w'. geocode_step remote api_key a all_results w = (Inl e, w')) \<and>
         (\<exists>e w'. batch_geocode_addresses pd remote api_key addresses batch_size w = (Inl e, w') \<and>
                  files w' = files w) \<and>
         (\<exists>e w'. geocode_and_save pd remote api_key addresses output_file_path w = (Inl e, w') \<and>
                  files w' = files w)"
proof -
  from row_of_lacks [of remote api_key a result d, OF assms(3-6)]
  obtain e where e: "row_of remote api_key a = Inl e" ..
  have 1: "\<exists>e w'. geocode_step remote api_key a all_results w = (Inl e, w')"
    by (simp add: geocode_step_eq e)
  have 2: "\<exists>e w'. batch_geocode_addresses pd remote api_key addresses n w0 = (Inl e, w') \<and>
                  files w' = files w0" if "1 \<le> n" for n w0
  proof -
    from for_address_raises [OF assms(2) e, of "[]" w0] obtain e' w' where
      "for_address remote api_key addresses [] w0 = (Inl e', w')" "files w' = files w0" by blast
    then show ?thesis by (simp add: batch_eq_for_address [OF that])
  qed
  have 3: "\<exists>e w'. geocode_and_save pd remote api_key addresses output_file_path w = (Inl e, w') \<and>
                  files w' = files w"
  proof -
    from 2 [of 200 "py_print ''Starting batch geocoding...'' w"] obtain e' w' where
      "batch_geocode_addresses pd remote api_key addresses 200
         (py_print ''Starting batch geocoding...'' w) = (Inl e', w')"
      "files w' = files (py_print ''Starting batch geocoding...'' w)" by auto
    then show ?thesis by (simp add: geocode_and_save_def py_print_def)
  qed
  from 1 2 [OF assms(1)] 3 show ?thesis by blast
qed

theorem malformed_body_aborts_run_witness:
  "(1::int) \<le> 2 \<and> ''D'' \<in> set [''A'', ''D'', ''B''] \<and>
   example_remote (search_request ''key'' ''D'') =
     Inr \<lparr>status_code = 200, body = Some (JObj [(''error'', JStr ''unexpected'')])\<rparr> \<and>
   lacks_expected_field (JObj [(''error'', JStr ''unexpected'')]) \<and>
   (\<exists>e w'. geocode_step example_remote ''key'' ''D'' [] example_world = (Inl e, w')) \<and>
   (\<exists>e w'. batch_geocode_addresses example_pandas example_remote ''key'' [''A'', ''D'', ''B''] 2 example_world
        = (Inl e, w') \<and> files w' = files example_world) \<and>
   (\<exists>e w'. geocode_and_save example_pandas example_remote ''key'' [''A'', ''D'', ''B''] ''output.csv''
        example_world = (Inl e, w') \<and> files w' = files example_world) \<and>
   fst (batch_geocode_addresses example_pandas example_remote ''key'' [''A'', ''D'', ''B''] 2 example_world)
     = Inl KeyError"
proof -
  let ?d = "JObj [(''error'', JStr ''unexpected'')]"
  let ?r = "\<lparr>status_code = 200, body = Some ?d\<rparr>"
  have h1: "(1::int) \<le> 2" by simp
  have h2: "''D'' \<in> set [''A'', ''D'', ''B'']" by simp
  have h3: "example_remote (search_request ''key'' ''D'') = Inr ?r" by (rule example_remote_simps)
  have h4: "status_code ?r = 200" by simp
  have h5: "body ?r = Some ?d" by simp
  have h6: "lacks_expected_field ?d" by (simp add: lacks_expected_field_def)
  have v: "fst (batch_geocode_addresses example_pandas example_remote ''key'' [''A'', ''D'', ''B''] 2 example_world)
     = Inl KeyError"
    by (simp add: batch_eq_for_address geocode_step_eq example_rows)
  from malformed_body_aborts_run [of 2 "''D''" "[''A'', ''D'', ''B'']" example_remote "''key''"
      ?r ?d "[]" example_world example_pandas "''output.csv''", OF h1 h2 h3 h4 h5 h6] h1 h2 h3 h6 v
  show ?thesis by blast
qed




text \<open>
  C10. Whenever the step for an address appends a row, in any of its three branches, the
  address field of that row is the input address itself; in a run with a batch size of at least
  1 that returns, the address column of the result is the input list.
\<close>

theorem address_field_is_input_address:
  "(geocode_step remote api_key a all_results w = (Inr all_results', w1) \<longrightarrow>
      (\<exists>r. all_results' = all_results @ [r] \<and> address r = a)) \<and>
   (1 \<le> batch_size \<longrightarrow>
    batch_geocode_addresses pd remote api_key addresses batch_size w0 = (Inr df, w') \<longrightarrow>
      map address (frame_rows df) = addresses)"
proof (intro conjI impI)
  assume "geocode_step remote api_key a all_results w = (Inr all_results', w1)"
  then show "\<exists>r. all_results' = all_results @ [r] \<and> address r = a"
    by (cases "row_of remote api_key a") (auto simp: geocode_step_eq row_of_address)
next
  assume b: "1 \<le> batch_size"
    and run: "batch_geocode_addresses pd remote api_key addresses batch_size w0 = (Inr df, w')"
  show "map address (frame_rows df) = addresses"
    by (rule batch_address_column [OF b run])
qed

theorem address_field_is_input_address_witness:
  "geocode_step example_remote ''key'' ''B'' [] example_world =
     (Inr [no_match_row ''B''], example_world\<lparr>net_log := [search_request ''key'' ''B'']\<rparr>) \<and>
   (\<exists>r. [no_match_row ''B''] = [] @ [r] \<and> address r = ''B'') \<and>
   (1::int) \<le> 2 \<and>
   batch_geocode_addresses example_pandas example_remote ''key'' [''A'', ''B'', ''C''] 2 example_world =
     (Inr (DataFrame example_pandas
        [\<lparr>address = ''A'', latitude = JFloat 40 0, longitude = JFloat (-75) 0,
           confidence_score = JInt 97, precision_code = JStr ''P1''\<rparr>,
         no_match_row ''B'', failed_row ''C'' 404]),
      example_world\<lparr>net_log := map (search_request ''key'') [''A'', ''B'', ''C''],
        stdout := [failed_line ''C'' 404]\<rparr>) \<and>
   map address (frame_rows (DataFrame example_pandas
        [\<lparr>address = ''A'', latitude = JFloat 40 0, longitude = JFloat (-75) 0,
           confidence_score = JInt 97, precision_code = JStr ''P1''\<rparr>,
         no_match_row ''B'', failed_row ''C'' 404])) = [''A'', ''B'', ''C'']"
proof -
  have s: "geocode_step example_remote ''key'' ''B'' [] example_world =
     (Inr [no_match_row ''B''], example_world\<lparr>net_log := [search_request ''key'' ''B'']\<rparr>)"
    by (simp add: geocode_step_eq example_rows example_world_def)
  have h: "(1::int) \<le> 2" by simp
  from address_field_is_input_address [of example_remote "''key''" "''B''" "[]" example_world
      "[no_match_row ''B'']" "example_world\<lparr>net_log := [search_request ''key'' ''B'']\<rparr>"
      2 example_pandas "[''A'', ''B'', ''C'']" example_world
      "DataFrame example_pandas
        [\<lparr>address = ''A'', latitude = JFloat 40 0, longitude = JFloat (-75) 0,
           confidence_score = JInt 97, precision_code = JStr ''P1''\<rparr>,
         no_match_row ''B'', failed_row ''C'' 404]"
      "example_world\<lparr>net_log := map (search_request ''key'') [''A'', ''B'', ''C''],
        stdout := [failed_line ''C'' 404]\<rparr>"]
    s h example_run
  show ?thesis by simp
qed



end
